theory Spec2Isabelle
  imports Main
begin

section \<open>Python strings\<close>

text \<open>
  Python's \<open>str\<close> is modelled as \<open>string\<close>, read as ASCII text: \<open>lower\<close> maps the
  letters \<open>A\<close> .. \<open>Z\<close> to \<open>a\<close> .. \<open>z\<close> and leaves every other character alone.
  No theorem below looks inside \<open>lower\<close> except when it evaluates a concrete request.
\<close>

definition lower_char :: "char \<Rightarrow> char" where
  "lower_char c =
     (case map_of (zip ''ABCDEFGHIJKLMNOPQRSTUVWXYZ'' ''abcdefghijklmnopqrstuvwxyz'') c of
        None \<Rightarrow> c
      | Some d \<Rightarrow> d)"

definition lower :: "string \<Rightarrow> string" where
  "lower s = map lower_char s"

text \<open>\<open>x or ""\<close> on a \<open>str\<close>: the empty string is falsy and is replaced by \<open>""\<close>.\<close>

definition or_empty :: "string \<Rightarrow> string" where
  "or_empty s = (if s = [] then [] else s)"

section \<open>HTTP errors\<close>

text \<open>\<open>raise HTTPException(status_code=..., detail=...)\<close> is the left summand of a result.\<close>

datatype http_exception = HTTPException (status_code: nat) (detail: string)

section \<open>Wizard advisor (main.py, wizard_steps)\<close>

text \<open>
  \<open>WizardRequest\<close>: \<open>soc\<close> and \<open>method\<close> are required strings, \<open>model\<close> and
  \<open>android_version\<close> are optional. The fields of the request carry the prefix \<open>req_\<close>, the keys of the
  response dictionary the prefix \<open>resp_\<close>.
\<close>

record WizardRequest =
  req_soc :: string
  req_method :: string
  req_model :: "string option"
  req_android_version :: "string option"

record WizardResponse =
  resp_soc :: string
  resp_method :: string
  resp_model :: "string option"
  resp_android_version :: "string option"
  resp_steps :: "string list"
  resp_disclaimer :: string

definition fastboot_steps :: "string list" where
  "fastboot_steps =
    [''Ensure OEM-unlocked bootloader if required by OEM; follow official guidance.'',
     ''Charge device above 50% and back up user data.'',
     ''Install official USB drivers and platform-tools.'',
     ''Reboot device to bootloader/fastboot mode.'',
     ''Use OEM-provided images matching exact model and Android version (14/15/16).'',
     ''Validate SHA256 checksum from OEM before proceeding.'',
     ''Use command-line fastboot to flash ONLY per OEM documentation.'',
     ''After completion, relock bootloader only if OEM permits and device boots fine.'']"

definition odin_steps :: "string list" where
  "odin_steps =
    [''Install latest Samsung USB drivers.'',
     ''Download official firmware from Samsung channels (matching CSC and model).'',
     ''Start device in Download Mode.'',
     ''Open Odin on a trusted workstation, load BL/AP/CP/CSC as per OEM instructions.'',
     ''Verify SHA256 checksums and binary revision (bootloader version).'',
     ''Start process and wait until pass; do not disconnect.'',
     ''On success, boot to recovery and wipe cache/data only if recommended by OEM.'']"

definition sideload_steps :: "string list" where
  "sideload_steps =
    [''Enable USB debugging and OEM unlocking if applicable.'',
     ''Download official OTA package for your exact model and Android version.'',
     ''Reboot to recovery and choose 'Apply update from ADB'.'',
     ''From workstation, run 'adb sideload <ota.zip>' per OEM guidance.'',
     ''Wait for verification and installation to complete.'',
     ''Reboot and perform post-update checks.'']"

definition wizard_disclaimer :: string where
  "wizard_disclaimer =
    ''Guidance only. Use official tools and firmware. This app does not execute flashing operations.''"

definition wizard_steps :: "WizardRequest \<Rightarrow> http_exception + WizardResponse" where
  "wizard_steps req =
    (let s = lower (or_empty (req_soc req));
         m = lower (or_empty (req_method req))
     in if s \<notin> {''qualcomm'', ''mtk'', ''exynos''}
        then Inl (HTTPException 400 ''Unsupported SoC'')
        else
          (case (if m = ''fastboot'' then Inr fastboot_steps
                 else if m \<in> {''odin'', ''oneui_recovery''} \<and> s = ''exynos''
                   then Inr odin_steps
                 else if m = ''adb_sideload'' then Inr sideload_steps
                 else Inl (HTTPException 400 ''Unsupported method for selected SoC''))
           of Inl e \<Rightarrow> Inl e
            | Inr chosen \<Rightarrow>
                Inr \<lparr>resp_soc = s, resp_method = m, resp_model = req_model req,
                     resp_android_version = req_android_version req, resp_steps = chosen,
                     resp_disclaimer = wizard_disclaimer\<rparr>))"

section \<open>Device probe (main.py, adb_info)\<close>

subsection \<open>The host: executable lookup and external processes\<close>

text \<open>
  \<open>adb_info\<close> reads the host through \<open>shutil.which\<close> and \<open>subprocess.run\<close>. The host is a
  parameter of the model:
  \<^item> \<open>shutil_which h name\<close> is the path \<open>shutil.which(name)\<close> returns, \<open>None\<close> when the
    executable is not on the search path;
  \<^item> \<open>subprocess_run h n argv\<close> is the outcome of the call
    \<open>subprocess.run(argv, capture_output=True, text=True, timeout=5)\<close> made as the
    \<open>n\<close>-th external call of the request (counting from 0): \<open>Inr out\<close> when it returns
    with standard output \<open>out\<close>, \<open>Inl msg\<close> when it raises an exception \<open>e\<close> (a timeout,
    a failure to start the process) with \<open>str(e) = msg\<close>.
  The command lines handed to \<open>subprocess.run\<close> are logged in order, so that the length of
  the log is the index of the next call and a theorem can say which calls were made.
\<close>

record host =
  shutil_which :: "string \<Rightarrow> string option"
  subprocess_run :: "nat \<Rightarrow> string list \<Rightarrow> string + string"

type_synonym call_log = "string list list"

subsection \<open>String operations used on the listing\<close>

text \<open>
  \<open>str.splitlines\<close> and \<open>str.strip\<close> on ASCII text: the line boundaries are LF, VT, FF, CR,
  FS, GS, RS and the pair CR LF, which counts once; \<open>strip\<close> removes the ASCII whitespace
  TAB, LF, VT, FF, CR, FS, GS, RS, US and space from both ends.
\<close>

definition line_boundary :: "char \<Rightarrow> bool" where
  "line_boundary c \<longleftrightarrow>
     c \<in> set [CHR 0x0A, CHR 0x0B, CHR 0x0C, CHR 0x0D, CHR 0x1C, CHR 0x1D, CHR 0x1E]"

fun splitlines_from :: "string \<Rightarrow> string \<Rightarrow> string list" where
  "splitlines_from cur [] = (if cur = [] then [] else [rev cur])"
| "splitlines_from cur [c] = (if line_boundary c then [rev cur] else [rev (c # cur)])"
| "splitlines_from cur (c # d # cs) =
     (if c = CHR 0x0D \<and> d = CHR 0x0A then rev cur # splitlines_from [] cs
      else if line_boundary c then rev cur # splitlines_from [] (d # cs)
      else splitlines_from (c # cur) (d # cs))"

definition splitlines :: "string \<Rightarrow> string list" where
  "splitlines s = splitlines_from [] s"

definition whitespace :: "char \<Rightarrow> bool" where
  "whitespace c \<longleftrightarrow>
     c \<in> set [CHR 0x09, CHR 0x0A, CHR 0x0B, CHR 0x0C, CHR 0x0D,
              CHR 0x1C, CHR 0x1D, CHR 0x1E, CHR 0x1F, CHR 0x20]"

definition strip :: "string \<Rightarrow> string" where
  "strip s = rev (dropWhile whitespace (rev (dropWhile whitespace s)))"

subsection \<open>The probe\<close>

text \<open>
  The dictionary \<open>info\<close> and the returned \<open>{**info, "props": props}\<close> are one record; a key
  the source may leave out (\<open>devices_raw\<close>, \<open>props\<close>) is an option, \<open>None\<close> when the key is
  absent. The dictionary \<open>props\<close> maps a property name to a string or to Python's \<open>None\<close>;
  it is an association list in insertion order.
\<close>

record adb_info_result =
  adb_available :: bool
  adb_path :: "string option"
  devices :: "string list"
  errors :: "string list"
  devices_raw :: "string option"
  props :: "(string \<times> string option) list option"

text \<open>\<open>d[k] = v\<close>: an existing key keeps its place, a new key goes to the end.\<close>

fun dict_set :: "('k \<times> 'v) list \<Rightarrow> 'k \<Rightarrow> 'v \<Rightarrow> ('k \<times> 'v) list" where
  "dict_set [] k v = [(k, v)]"
| "dict_set ((k', v') # kvs) k v =
     (if k' = k then (k, v) # kvs else (k', v') # dict_set kvs k v)"

text \<open>\<open>bool(adb_path)\<close>: \<open>None\<close> and the empty string are falsy.\<close>

definition truthy :: "string option \<Rightarrow> bool" where
  "truthy p = (case p of None \<Rightarrow> False | Some s \<Rightarrow> s \<noteq> [])"

text \<open>Lines 133 to 135: the stripped non-empty lines of the listing, without the header.\<close>

definition parse_devices :: "string \<Rightarrow> string list" where
  "parse_devices out = drop 1 (filter (\<lambda>l. l \<noteq> []) (map strip (splitlines out)))"

text \<open>Lines 130 to 137: the first \<open>try\<close> block.\<close>

definition list_devices ::
  "host \<Rightarrow> string \<Rightarrow> adb_info_result \<Rightarrow> call_log \<Rightarrow> adb_info_result \<times> call_log" where
  "list_devices h p info log =
     (let argv = [p, ''devices'', ''-l''] in
      case subprocess_run h (length log) argv of
        Inl e \<Rightarrow> (info\<lparr>errors := errors info @ [e]\<rparr>, log @ [argv])
      | Inr out \<Rightarrow>
          (info\<lparr>devices_raw := Some out, devices := devices info @ parse_devices out\<rparr>,
           log @ [argv]))"

definition prop_keys :: "string list" where
  "prop_keys =
     [''ro.product.brand'', ''ro.product.device'', ''ro.product.model'', ''ro.build.id'',
      ''ro.build.version.release'', ''ro.build.version.sdk'', ''ro.build.fingerprint'']"

text \<open>Lines 146 to 161: the loop over the keys, each query in its own \<open>try\<close>.\<close>

fun query_props ::
  "host \<Rightarrow> string \<Rightarrow> string list \<Rightarrow> (string \<times> string option) list \<Rightarrow> call_log \<Rightarrow>
     (string \<times> string option) list \<times> call_log" where
  "query_props h p [] ps log = (ps, log)"
| "query_props h p (k # ks) ps log =
     (let argv = [p, ''shell'', ''getprop'', k] in
      query_props h p ks
        (dict_set ps k
           (case subprocess_run h (length log) argv of
              Inl e \<Rightarrow> None
            | Inr out \<Rightarrow> Some (strip out)))
        (log @ [argv]))"

text \<open>Lines 144 to 163: the second \<open>try\<close> block; the result of its first call is not used.\<close>

definition read_props ::
  "host \<Rightarrow> string \<Rightarrow> adb_info_result \<Rightarrow> call_log \<Rightarrow>
     adb_info_result \<times> (string \<times> string option) list \<times> call_log" where
  "read_props h p info log =
     (let argv = [p, ''shell'', ''getprop''] in
      case subprocess_run h (length log) argv of
        Inl e \<Rightarrow> (info\<lparr>errors := errors info @ [e]\<rparr>, [], log @ [argv])
      | Inr out \<Rightarrow>
          (case query_props h p prop_keys [] (log @ [argv]) of
             (ps, log') \<Rightarrow> (info, ps, log')))"

text \<open>The handler: its result and the external calls it made, in order.\<close>

definition adb_info :: "host \<Rightarrow> adb_info_result \<times> call_log" where
  "adb_info h =
     (let path = shutil_which h ''adb'';
          info = \<lparr>adb_available = truthy path, adb_path = path, devices = [], errors = [],
                  devices_raw = None, props = None\<rparr>
      in case path of
           None \<Rightarrow> (info, [])
         | Some p \<Rightarrow>
             if \<not> truthy path then (info, [])
             else
               (case list_devices h p info [] of
                  (info1, log1) \<Rightarrow>
                    if devices info1 = [] then (info1\<lparr>props := Some []\<rparr>, log1)
                    else
                      (case read_props h p info1 log1 of
                         (info2, ps, log2) \<Rightarrow> (info2\<lparr>props := Some ps\<rparr>, log2))))"

subsection \<open>Example hosts\<close>

definition host_without_adb :: host where
  "host_without_adb = \<lparr>shutil_which = (\<lambda>name. None), subprocess_run = (\<lambda>n argv. Inl ''unused'')\<rparr>"

definition host_no_devices :: host where
  "host_no_devices =
     \<lparr>shutil_which = (\<lambda>name. if name = ''adb'' then Some ''/usr/bin/adb'' else None),
      subprocess_run = (\<lambda>n argv. Inr (''List of devices attached'' @ [CHR 0x0A, CHR 0x0A]))\<rparr>"

text \<open>
  One device is listed; the query of \<open>ro.product.model\<close>, the call with index 4, times out,
  every other call returns.
\<close>

definition host_model_query_fails :: host where
  "host_model_query_fails =
     \<lparr>shutil_which = (\<lambda>name. if name = ''adb'' then Some ''/usr/bin/adb'' else None),
      subprocess_run = (\<lambda>n argv.
         if n = 0 then Inr (''List of devices attached'' @ [CHR 0x0A] @
                            ''emulator-5554  device product:sdk'' @ [CHR 0x0A, CHR 0x0A])
         else if n = 4 then Inl ''Command timed out after 5 seconds''
         else Inr (''value'' @ [CHR 0x0A]))\<rparr>"

(*DEFS-END*)

section \<open>Facts about the string helpers and the step tables\<close>

lemma or_empty_id: "or_empty s = s"
  by (simp add: or_empty_def)

lemma length_fastboot_steps: "length fastboot_steps = 8"
  by (simp add: fastboot_steps_def)

lemma length_odin_steps: "length odin_steps = 7"
  by (simp add: odin_steps_def)

lemma length_sideload_steps: "length sideload_steps = 6"
  by (simp add: sideload_steps_def)

lemma lower_literals:
  "lower ''MTK'' = ''mtk''" "lower ''FastBoot'' = ''fastboot''" "lower ''tizen'' = ''tizen''"
  "lower ''fastboot'' = ''fastboot''" "lower ''Exynos'' = ''exynos''" "lower ''ODIN'' = ''odin''"
  "lower ''qualcomm'' = ''qualcomm''" "lower ''odin'' = ''odin''" "lower ''mtk'' = ''mtk''"
  "lower ''adb_sideload'' = ''adb_sideload''" "lower ''exynos'' = ''exynos''"
  by (simp_all add: lower_def lower_char_def)

section \<open>Wizard advisor: the decision table\<close>

text \<open>
  Claim C1. Whenever the lower-cased \<open>soc\<close> is one of qualcomm, mtk, exynos and the
  lower-cased \<open>method\<close> is fastboot, \<open>wizard_steps\<close> succeeds; the steps are the fixed list
  \<open>fastboot_steps\<close> of eight strings, whatever the soc and whatever the letter case of
  either input, and the disclaimer is the constant \<open>wizard_disclaimer\<close>.
\<close>

theorem wizard_steps_fastboot:
  assumes "lower (req_soc req) \<in> {''qualcomm'', ''mtk'', ''exynos''}"
    and "lower (req_method req) = ''fastboot''"
  shows "wizard_steps req =
           Inr \<lparr>resp_soc = lower (req_soc req), resp_method = ''fastboot'', resp_model = req_model req,
                resp_android_version = req_android_version req, resp_steps = fastboot_steps,
                resp_disclaimer = wizard_disclaimer\<rparr>
         \<and> length fastboot_steps = 8"
  using assms
  by (auto simp add: wizard_steps_def Let_def or_empty_id length_fastboot_steps)

theorem wizard_steps_fastboot_witness:
  "lower ''MTK'' \<in> {''qualcomm'', ''mtk'', ''exynos''} \<and> lower ''FastBoot'' = ''fastboot'' \<and>
   wizard_steps \<lparr>req_soc = ''MTK'', req_method = ''FastBoot'', req_model = Some ''Pixel 9 Pro'',
                  req_android_version = None\<rparr> =
     Inr \<lparr>resp_soc = ''mtk'', resp_method = ''fastboot'', resp_model = Some ''Pixel 9 Pro'',
          resp_android_version = None, resp_steps = fastboot_steps, resp_disclaimer = wizard_disclaimer\<rparr>"
proof -
  let ?r = "\<lparr>req_soc = ''MTK'', req_method = ''FastBoot'', req_model = Some ''Pixel 9 Pro'',
             req_android_version = None\<rparr>"
  have h1: "lower (req_soc ?r) \<in> {''qualcomm'', ''mtk'', ''exynos''}"
    by (simp add: lower_literals)
  have h2: "lower (req_method ?r) = ''fastboot''"
    by (simp add: lower_literals)
  from wizard_steps_fastboot [OF h1 h2] show ?thesis
    by (simp add: lower_literals)
qed

text \<open>
  Claim C2. Whenever the lower-cased \<open>soc\<close> is none of qualcomm, mtk, exynos,
  \<open>wizard_steps\<close> fails with the client error 400 "Unsupported SoC"; the result is the same
  for every method, so no comparison of the method takes part in it. In particular the
  request with soc "tizen" and method "fastboot" fails this way.
\<close>

theorem wizard_steps_unsupported_soc:
  "(lower (req_soc req) \<notin> {''qualcomm'', ''mtk'', ''exynos''} \<longrightarrow>
      wizard_steps req = Inl (HTTPException 400 ''Unsupported SoC''))
   \<and> wizard_steps \<lparr>req_soc = ''tizen'', req_method = ''fastboot'', req_model = mo,
                    req_android_version = av\<rparr> = Inl (HTTPException 400 ''Unsupported SoC'')"
  by (simp add: wizard_steps_def Let_def or_empty_id lower_literals)

theorem wizard_steps_unsupported_soc_witness:
  "lower ''Snapdragon'' \<notin> {''qualcomm'', ''mtk'', ''exynos''} \<and>
   wizard_steps \<lparr>req_soc = ''Snapdragon'', req_method = ''adb_sideload'', req_model = None,
                  req_android_version = Some ''15''\<rparr> = Inl (HTTPException 400 ''Unsupported SoC'')"
proof -
  let ?r = "\<lparr>req_soc = ''Snapdragon'', req_method = ''adb_sideload'', req_model = None,
             req_android_version = Some ''15''\<rparr>"
  have h: "lower (req_soc ?r) \<notin> {''qualcomm'', ''mtk'', ''exynos''}"
    by (simp add: lower_def lower_char_def)
  from wizard_steps_unsupported_soc [of ?r] h
  have "wizard_steps ?r = Inl (HTTPException 400 ''Unsupported SoC'')"
    by blast
  with h show ?thesis by simp
qed

text \<open>
  Claim C3. For a validated soc and a lower-cased method other than fastboot: the methods
  odin and oneui_recovery on exynos give the fixed list \<open>odin_steps\<close> of seven strings;
  adb_sideload gives the fixed list \<open>sideload_steps\<close> of six strings on every validated
  soc; every other combination fails with the client error 400 "Unsupported method for
  selected SoC", among them odin on qualcomm.
\<close>

theorem wizard_steps_other_methods:
  assumes "lower (req_soc req) \<in> {''qualcomm'', ''mtk'', ''exynos''}"
    and "lower (req_method req) \<noteq> ''fastboot''"
  shows "(lower (req_method req) \<in> {''odin'', ''oneui_recovery''} \<and> lower (req_soc req) = ''exynos'' \<longrightarrow>
            wizard_steps req =
              Inr \<lparr>resp_soc = ''exynos'', resp_method = lower (req_method req), resp_model = req_model req,
                   resp_android_version = req_android_version req, resp_steps = odin_steps,
                   resp_disclaimer = wizard_disclaimer\<rparr>)
       \<and> (lower (req_method req) = ''adb_sideload'' \<longrightarrow>
            wizard_steps req =
              Inr \<lparr>resp_soc = lower (req_soc req), resp_method = ''adb_sideload'', resp_model = req_model req,
                   resp_android_version = req_android_version req, resp_steps = sideload_steps,
                   resp_disclaimer = wizard_disclaimer\<rparr>)
       \<and> (\<not> (lower (req_method req) \<in> {''odin'', ''oneui_recovery''} \<and> lower (req_soc req) = ''exynos'')
            \<and> lower (req_method req) \<noteq> ''adb_sideload'' \<longrightarrow>
            wizard_steps req = Inl (HTTPException 400 ''Unsupported method for selected SoC''))
       \<and> length odin_steps = 7 \<and> length sideload_steps = 6"
  using assms
  by (auto simp add: wizard_steps_def Let_def or_empty_id length_odin_steps length_sideload_steps)

theorem wizard_steps_other_methods_witness:
  "lower ''Exynos'' \<in> {''qualcomm'', ''mtk'', ''exynos''} \<and> lower ''ODIN'' \<noteq> ''fastboot'' \<and>
   wizard_steps \<lparr>req_soc = ''Exynos'', req_method = ''ODIN'', req_model = None,
                  req_android_version = None\<rparr> =
     Inr \<lparr>resp_soc = ''exynos'', resp_method = ''odin'', resp_model = None, resp_android_version = None,
          resp_steps = odin_steps, resp_disclaimer = wizard_disclaimer\<rparr> \<and>
   lower ''qualcomm'' \<in> {''qualcomm'', ''mtk'', ''exynos''} \<and> lower ''odin'' \<noteq> ''fastboot'' \<and>
   wizard_steps \<lparr>req_soc = ''qualcomm'', req_method = ''odin'', req_model = None,
                  req_android_version = None\<rparr> =
     Inl (HTTPException 400 ''Unsupported method for selected SoC'') \<and>
   lower ''mtk'' \<in> {''qualcomm'', ''mtk'', ''exynos''} \<and> lower ''adb_sideload'' \<noteq> ''fastboot'' \<and>
   wizard_steps \<lparr>req_soc = ''mtk'', req_method = ''adb_sideload'', req_model = None,
                  req_android_version = None\<rparr> =
     Inr \<lparr>resp_soc = ''mtk'', resp_method = ''adb_sideload'', resp_model = None, resp_android_version = None,
          resp_steps = sideload_steps, resp_disclaimer = wizard_disclaimer\<rparr>"
proof -
  let ?a = "\<lparr>req_soc = ''Exynos'', req_method = ''ODIN'', req_model = None,
             req_android_version = None\<rparr>"
  let ?b = "\<lparr>req_soc = ''qualcomm'', req_method = ''odin'', req_model = None,
             req_android_version = None\<rparr>"
  let ?c = "\<lparr>req_soc = ''mtk'', req_method = ''adb_sideload'', req_model = None,
             req_android_version = None\<rparr>"
  have a1: "lower (req_soc ?a) \<in> {''qualcomm'', ''mtk'', ''exynos''}"
    and a2: "lower (req_method ?a) \<noteq> ''fastboot''"
    and b1: "lower (req_soc ?b) \<in> {''qualcomm'', ''mtk'', ''exynos''}"
    and b2: "lower (req_method ?b) \<noteq> ''fastboot''"
    and c1: "lower (req_soc ?c) \<in> {''qualcomm'', ''mtk'', ''exynos''}"
    and c2: "lower (req_method ?c) \<noteq> ''fastboot''"
    by (simp_all add: lower_literals)
  from wizard_steps_other_methods [OF a1 a2] wizard_steps_other_methods [OF b1 b2]
    wizard_steps_other_methods [OF c1 c2]
  show ?thesis
    by (simp add: lower_literals)
qed

text \<open>
  Claim C4. Two requests with the same \<open>soc\<close> and \<open>method\<close> get the same outcome up
  to the echoed fields: the same error, or responses with the same soc, method, steps and
  disclaimer, whatever their \<open>model\<close> and \<open>android_version\<close>; and every response echoes
  the \<open>model\<close> and \<open>android_version\<close> of its own request unchanged.
\<close>

theorem wizard_steps_depends_on_soc_method:
  assumes "req_soc r1 = req_soc r2" and "req_method r1 = req_method r2"
  shows "map_sum id (\<lambda>resp. (resp_soc resp, resp_method resp, resp_steps resp, resp_disclaimer resp)) (wizard_steps r1) =
         map_sum id (\<lambda>resp. (resp_soc resp, resp_method resp, resp_steps resp, resp_disclaimer resp)) (wizard_steps r2)
       \<and> (\<forall>resp. wizard_steps r1 = Inr resp \<longrightarrow>
             resp_model resp = req_model r1 \<and> resp_android_version resp = req_android_version r1)
       \<and> (\<forall>resp. wizard_steps r2 = Inr resp \<longrightarrow>
             resp_model resp = req_model r2 \<and> resp_android_version resp = req_android_version r2)"
  using assms
  by (auto simp add: wizard_steps_def Let_def split: sum.splits if_splits)

theorem wizard_steps_depends_on_soc_method_witness:
  "wizard_steps \<lparr>req_soc = ''exynos'', req_method = ''odin'', req_model = Some ''SM-S921B'',
                  req_android_version = Some ''14''\<rparr> =
     Inr \<lparr>resp_soc = ''exynos'', resp_method = ''odin'', resp_model = Some ''SM-S921B'',
          resp_android_version = Some ''14'', resp_steps = odin_steps, resp_disclaimer = wizard_disclaimer\<rparr> \<and>
   wizard_steps \<lparr>req_soc = ''exynos'', req_method = ''odin'', req_model = None,
                  req_android_version = Some ''16''\<rparr> =
     Inr \<lparr>resp_soc = ''exynos'', resp_method = ''odin'', resp_model = None,
          resp_android_version = Some ''16'', resp_steps = odin_steps, resp_disclaimer = wizard_disclaimer\<rparr>"
proof -
  let ?a = "\<lparr>req_soc = ''exynos'', req_method = ''odin'', req_model = Some ''SM-S921B'',
             req_android_version = Some ''14''\<rparr>"
  let ?b = "\<lparr>req_soc = ''exynos'', req_method = ''odin'', req_model = None,
             req_android_version = Some ''16''\<rparr>"
  let ?ra = "\<lparr>resp_soc = ''exynos'', resp_method = ''odin'', resp_model = Some ''SM-S921B'',
          resp_android_version = Some ''14'', resp_steps = odin_steps, resp_disclaimer = wizard_disclaimer\<rparr>"
  have h1: "req_soc ?a = req_soc ?b" and h2: "req_method ?a = req_method ?b"
    by simp_all
  have a: "wizard_steps ?a = Inr ?ra"
    by (simp add: wizard_steps_def Let_def or_empty_id lower_literals)
  note c4 = wizard_steps_depends_on_soc_method [OF h1 h2]
  from c4 have eq: "map_sum id (\<lambda>resp. (resp_soc resp, resp_method resp, resp_steps resp, resp_disclaimer resp)) (wizard_steps ?b)
      = Inr (''exynos'', ''odin'', odin_steps, wizard_disclaimer)"
    unfolding a by simp
  then obtain resp where r: "wizard_steps ?b = Inr resp"
    by (cases "wizard_steps ?b") simp_all
  from eq r have f: "resp_soc resp = ''exynos''" "resp_method resp = ''odin''" "resp_steps resp = odin_steps"
    "resp_disclaimer resp = wizard_disclaimer"
    by simp_all
  from c4 r have g: "resp_model resp = None" "resp_android_version resp = Some ''16''"
    by simp_all
  from f g have "resp = \<lparr>resp_soc = ''exynos'', resp_method = ''odin'', resp_model = None,
          resp_android_version = Some ''16'', resp_steps = odin_steps, resp_disclaimer = wizard_disclaimer\<rparr>"
    by (cases resp) simp
  with a r show ?thesis by simp
qed


end
